theory Spec2Isabelle
  imports Complex_Main "HOL-Library.Multiset"
begin

section \<open>ShoppyGlobe: the cart slice and the products slice\<close>

text \<open>
  A shallow embedding of the two Redux slices of the application:
  \<^verbatim>\<open>src/lib/features/cart/cart-slice.js\<close> and the products slice
  (\<^verbatim>\<open>lib/features/products/products-slice.js\<close>, which also holds the memoized selector
  \<^verbatim>\<open>selectFilteredProducts\<close>).

  A case reducer of Redux Toolkit mutates an Immer draft; the model passes the state in and
  returns the updated state. JavaScript numbers are modelled as rationals: the arithmetic the
  slices do (adding 1, multiplying a price by a quantity, subtracting two prices) is exact
  there, and rounding, NaN and the infinities of IEEE doubles are outside the model.
\<close>

type_synonym number = rat

subsection \<open>Cart slice: data\<close>

text \<open>
  The payload of \<^verbatim>\<open>addToCart\<close> is the object the components dispatch,
  \<^verbatim>\<open>{ id, title, price, image }\<close>; a cart item is that object with a
  \<^verbatim>\<open>quantity\<close> (\<^verbatim>\<open>{ ...action.payload, quantity: 1 }\<close>).
\<close>

record cart_payload =
  item_id :: int
  item_title :: string
  item_price :: number
  item_image :: string

record cart_item = cart_payload +
  quantity :: number

record cart_state =
  items :: "cart_item list"
  total_cart :: number

definition initialState_cart :: cart_state where
  "initialState_cart = \<lparr>items = [], total_cart = 0\<rparr>"

subsection \<open>Cart slice: reducers\<close>

text \<open>
  \<^verbatim>\<open>state.items.reduce((sum, item) => sum + item.price * item.quantity, 0)\<close>:
  a left fold from 0.
\<close>

definition calc_total :: "cart_item list \<Rightarrow> number" where
  "calc_total xs = foldl (\<lambda>sum item. sum + item_price item * quantity item) 0 xs"

text \<open>
  \<^verbatim>\<open>Array.prototype.find\<close> returns the first element that satisfies the predicate,
  by reference; the reducers then assign to a field of that element. The model finds the index
  of the first match and updates the list at that index.
\<close>

fun find_index :: "('a \<Rightarrow> bool) \<Rightarrow> 'a list \<Rightarrow> nat option" where
  "find_index P [] = None"
| "find_index P (x # xs) = (if P x then Some 0 else map_option Suc (find_index P xs))"

definition addToCart :: "cart_state \<Rightarrow> cart_payload \<Rightarrow> cart_state" where
  "addToCart state payload =
     (let items1 =
        (case find_index (\<lambda>item. item_id item = item_id payload) (items state) of
           Some i \<Rightarrow>
             (items state)[i := (items state ! i)\<lparr>quantity := quantity (items state ! i) + 1\<rparr>]
         | None \<Rightarrow>
             items state @
               [\<lparr>item_id = item_id payload, item_title = item_title payload,
                 item_price = item_price payload, item_image = item_image payload,
                 quantity = 1\<rparr>])
      in state\<lparr>items := items1, total_cart := calc_total items1\<rparr>)"

definition removeFromCart :: "cart_state \<Rightarrow> int \<Rightarrow> cart_state" where
  "removeFromCart state payload =
     (let items1 = filter (\<lambda>item. item_id item \<noteq> payload) (items state)
      in state\<lparr>items := items1, total_cart := calc_total items1\<rparr>)"

text \<open>The payload of \<^verbatim>\<open>updateQuantity\<close> is \<^verbatim>\<open>{ id, quantity }\<close>.\<close>

definition updateQuantity :: "cart_state \<Rightarrow> int \<Rightarrow> number \<Rightarrow> cart_state" where
  "updateQuantity state pid pquantity =
     (let items1 =
        (case find_index (\<lambda>item. item_id item = pid) (items state) of
           Some i \<Rightarrow>
             (if pquantity \<ge> 1 then (items state)[i := (items state ! i)\<lparr>quantity := pquantity\<rparr>]
              else items state)
         | None \<Rightarrow> items state)
      in state\<lparr>items := items1, total_cart := calc_total items1\<rparr>)"

definition clearCart :: "cart_state \<Rightarrow> cart_state" where
  "clearCart state = state\<lparr>items := [], total_cart := 0\<rparr>"

text \<open>The four action creators of the slice, and the reducer that dispatches on them.\<close>

datatype cart_action =
    AddToCart cart_payload
  | RemoveFromCart int
  | UpdateQuantity int number
  | ClearCart

fun cartReducer :: "cart_state \<Rightarrow> cart_action \<Rightarrow> cart_state" where
  "cartReducer state (AddToCart payload) = addToCart state payload"
| "cartReducer state (RemoveFromCart pid) = removeFromCart state pid"
| "cartReducer state (UpdateQuantity pid q) = updateQuantity state pid q"
| "cartReducer state ClearCart = clearCart state"

text \<open>
  The snapshots of the store while a sequence of actions is dispatched: the state before the
  first action, and the state after each action in turn.
\<close>

fun cart_trace :: "cart_state \<Rightarrow> cart_action list \<Rightarrow> cart_state list" where
  "cart_trace state [] = [state]"
| "cart_trace state (a # as) = state # cart_trace (cartReducer state a) as"

text \<open>
  The total as the specification words it: the sum of unit price times quantity over the
  lines.
\<close>

definition lines_sum :: "cart_item list \<Rightarrow> number" where
  "lines_sum xs = (\<Sum>l\<leftarrow>xs. item_price l * quantity l)"

subsection \<open>Products slice: data\<close>

text \<open>
  The products come from a remote API, so a field the code expects to hold a string may hold
  anything, or be missing (it then reads as \<^verbatim>\<open>undefined\<close>). The four fields the search
  looks at are modelled as JavaScript values; \<^verbatim>\<open>price\<close> and \<^verbatim>\<open>rating\<close> are numbers.
  The remaining fields of a product (\<^verbatim>\<open>discountPercentage\<close>, \<^verbatim>\<open>stock\<close>,
  \<^verbatim>\<open>thumbnail\<close>, \<^verbatim>\<open>images\<close>) are never read by the slice and are left out.
\<close>

datatype jsval = JUndefined | JNull | JBool bool | JNum number | JStr string

record product =
  product_id :: int
  title :: jsval
  description :: jsval
  category :: jsval
  brand :: jsval
  price :: number
  rating :: number

record products_state =
  products :: "product list"
  filteredProducts :: "product list"
  searchQuery :: string
  selectedCategory :: string
  sortBy :: string
  loading :: bool
  error :: "string option"
  categories :: "jsval list"

definition initialState_products :: products_state where
  "initialState_products =
     \<lparr>products = [], filteredProducts = [], searchQuery = '''', selectedCategory = '''',
      sortBy = ''name'', loading = False, error = None, categories = []\<rparr>"

text \<open>
  The slice stores no status field. The status of the specification
  (idle, loading or error) is read off \<^verbatim>\<open>loading\<close> and \<^verbatim>\<open>error\<close>, in the order in
  which the product list component tests them: \<^verbatim>\<open>if (loading) ... if (error) ...\<close>.
\<close>

datatype status = Idle | Loading | Error

definition status_of :: "products_state \<Rightarrow> status" where
  "status_of state =
     (if loading state then Loading else if error state \<noteq> None then Error else Idle)"

subsection \<open>Products slice: strings\<close>

text \<open>
  \<^verbatim>\<open>String.prototype.toLowerCase\<close> on strings of ASCII characters: the 26 capital letters
  map to their small letters, every other character stays.
\<close>

definition toLowerCase_char :: "char \<Rightarrow> char" where
  "toLowerCase_char c =
     (case map_of (zip ''ABCDEFGHIJKLMNOPQRSTUVWXYZ'' ''abcdefghijklmnopqrstuvwxyz'') c of
        Some d \<Rightarrow> d
      | None \<Rightarrow> c)"

definition toLowerCase :: "string \<Rightarrow> string" where
  "toLowerCase s = map toLowerCase_char s"

text \<open>
  \<^verbatim>\<open>s.includes(t)\<close>: \<^verbatim>\<open>t\<close> occurs in \<^verbatim>\<open>s\<close> as a contiguous substring. The empty string
  occurs in every string.
\<close>

fun startsWith :: "string \<Rightarrow> string \<Rightarrow> bool" where
  "startsWith s [] = True"
| "startsWith [] (c # t) = False"
| "startsWith (a # s) (c # t) = (a = c \<and> startsWith s t)"

fun includes_str :: "string \<Rightarrow> string \<Rightarrow> bool" where
  "includes_str [] t = (t = [])"
| "includes_str (a # s) t = (startsWith (a # s) t \<or> includes_str s t)"

text \<open>
  \<^verbatim>\<open>typeof v === "string" ? v.toLowerCase() : ""\<close>, the conversion of the reducer, and
  \<^verbatim>\<open>typeof v === "string" ? v : ""\<close>, the one of its comparator.
\<close>

definition safe_lower :: "jsval \<Rightarrow> string" where
  "safe_lower v = (case v of JStr s \<Rightarrow> toLowerCase s | _ \<Rightarrow> '''')"

definition safe_string :: "jsval \<Rightarrow> string" where
  "safe_string v = (case v of JStr s \<Rightarrow> s | _ \<Rightarrow> '''')"

text \<open>
  \<^verbatim>\<open>v.toLowerCase()\<close> with no test, as the selector writes it: reading a property of
  \<^verbatim>\<open>undefined\<close> or \<^verbatim>\<open>null\<close> throws a TypeError, and so does calling the property
  \<^verbatim>\<open>toLowerCase\<close> of a boolean or a number, which is \<^verbatim>\<open>undefined\<close>.
\<close>

datatype js_error = TypeError

definition call_toLowerCase :: "jsval \<Rightarrow> js_error + string" where
  "call_toLowerCase v = (case v of JStr s \<Rightarrow> Inr (toLowerCase s) | _ \<Rightarrow> Inl TypeError)"

subsection \<open>Products slice: arrays\<close>

text \<open>
  \<^verbatim>\<open>Array.prototype.sort\<close> with a comparator is stable: \<^verbatim>\<open>a\<close> comes before \<^verbatim>\<open>b\<close> when
  the comparator is negative, after it when positive, and two elements the comparator ranks
  equal keep their order. The model is a stable insertion sort; every stable sort returns the
  same list for a comparator that is a consistent ordering.
\<close>

fun insert_cmp :: "('a \<Rightarrow> 'a \<Rightarrow> number) \<Rightarrow> 'a \<Rightarrow> 'a list \<Rightarrow> 'a list" where
  "insert_cmp cmp x [] = [x]"
| "insert_cmp cmp x (y # ys) =
     (if cmp x y \<le> 0 then x # y # ys else y # insert_cmp cmp x ys)"

fun sort_js :: "('a \<Rightarrow> 'a \<Rightarrow> number) \<Rightarrow> 'a list \<Rightarrow> 'a list" where
  "sort_js cmp [] = []"
| "sort_js cmp (x # xs) = insert_cmp cmp x (sort_js cmp xs)"

text \<open>
  The same sort for a comparator that may throw: the first exception ends the sort. Which
  pairs the host compares, and in which order, is left to the engine; the model compares
  each element with the elements after it.
\<close>

fun insert_cmp_e ::
  "('a \<Rightarrow> 'a \<Rightarrow> js_error + number) \<Rightarrow> 'a \<Rightarrow> 'a list \<Rightarrow> js_error + 'a list" where
  "insert_cmp_e cmp x [] = Inr [x]"
| "insert_cmp_e cmp x (y # ys) =
     (case cmp x y of
        Inl e \<Rightarrow> Inl e
      | Inr r \<Rightarrow>
          if r \<le> 0 then Inr (x # y # ys)
          else (case insert_cmp_e cmp x ys of Inl e \<Rightarrow> Inl e | Inr zs \<Rightarrow> Inr (y # zs)))"

fun sort_js_e :: "('a \<Rightarrow> 'a \<Rightarrow> js_error + number) \<Rightarrow> 'a list \<Rightarrow> js_error + 'a list" where
  "sort_js_e cmp [] = Inr []"
| "sort_js_e cmp (x # xs) =
     (case sort_js_e cmp xs of Inl e \<Rightarrow> Inl e | Inr ys \<Rightarrow> insert_cmp_e cmp x ys)"

text \<open>
  \<^verbatim>\<open>Array.prototype.filter\<close> with a predicate that may throw: the elements are tested from
  the first to the last, and the first exception ends the pass.
\<close>

fun filter_e :: "('a \<Rightarrow> js_error + bool) \<Rightarrow> 'a list \<Rightarrow> js_error + 'a list" where
  "filter_e P [] = Inr []"
| "filter_e P (x # xs) =
     (case P x of
        Inl e \<Rightarrow> Inl e
      | Inr b \<Rightarrow>
          (case filter_e P xs of
             Inl e \<Rightarrow> Inl e
           | Inr ys \<Rightarrow> Inr (if b then x # ys else ys)))"

text \<open>
  \<^verbatim>\<open>[...new Set(xs)]\<close>: the distinct values of \<^verbatim>\<open>xs\<close>, each at the place of its first
  occurrence.
\<close>

definition distinct_values :: "'a list \<Rightarrow> 'a list" where
  "distinct_values xs = rev (remdups (rev xs))"

subsection \<open>Products slice: reducers\<close>

text \<open>
  \<^verbatim>\<open>String.prototype.localeCompare\<close> is a collation of the host and depends on its locale.
  It is a parameter of the model, \<open>localeCompare\<close>: \<open>localeCompare s v\<close> stands for
  \<^verbatim>\<open>s.localeCompare(v)\<close>, which converts \<^verbatim>\<open>v\<close> to a string and returns a negative number,
  zero or a positive number.
\<close>

type_synonym collation = "string \<Rightarrow> jsval \<Rightarrow> number"

text \<open>
  The search predicate of \<^verbatim>\<open>applyFilters\<close>, for the search term already in lower case.
\<close>

definition reducer_matches :: "string \<Rightarrow> product \<Rightarrow> bool" where
  "reducer_matches searchTerm product =
     (let title1 = safe_lower (title product);
          description1 = safe_lower (description product);
          category1 = safe_lower (category product);
          brand1 = safe_lower (brand product)
      in includes_str title1 searchTerm \<or> includes_str description1 searchTerm \<or>
         includes_str category1 searchTerm \<or> includes_str brand1 searchTerm)"

text \<open>
  The \<^verbatim>\<open>switch\<close> of \<^verbatim>\<open>applyFilters\<close> has no \<^verbatim>\<open>default\<close>: any other sort key leaves
  the list as it is.
\<close>

definition reducer_sort :: "collation \<Rightarrow> string \<Rightarrow> product list \<Rightarrow> product list" where
  "reducer_sort localeCompare key filtered =
     (if key = ''price-asc'' then sort_js (\<lambda>a b. price a - price b) filtered
      else if key = ''price-desc'' then sort_js (\<lambda>a b. price b - price a) filtered
      else if key = ''rating'' then sort_js (\<lambda>a b. rating b - rating a) filtered
      else if key = ''name'' then
        sort_js (\<lambda>a b. localeCompare (safe_string (title a)) (JStr (safe_string (title b))))
          filtered
      else filtered)"

definition applyFilters :: "collation \<Rightarrow> products_state \<Rightarrow> products_state" where
  "applyFilters localeCompare state =
     (let filtered0 = products state;
          filtered1 =
            (if searchQuery state \<noteq> '''' then
               filter (reducer_matches (toLowerCase (searchQuery state))) filtered0
             else filtered0);
          filtered2 =
            (if selectedCategory state \<noteq> '''' then
               filter (\<lambda>product. category product = JStr (selectedCategory state)) filtered1
             else filtered1);
          filtered3 = reducer_sort localeCompare (sortBy state) filtered2
      in state\<lparr>filteredProducts := filtered3\<rparr>)"

definition setLoading :: "products_state \<Rightarrow> bool \<Rightarrow> products_state" where
  "setLoading state payload = state\<lparr>loading := payload\<rparr>"

definition setProducts :: "collation \<Rightarrow> products_state \<Rightarrow> product list \<Rightarrow> products_state" where
  "setProducts localeCompare state payload =
     applyFilters localeCompare
       (state\<lparr>products := payload,
              categories := distinct_values (map category payload),
              loading := False,
              error := None\<rparr>)"

definition setError :: "products_state \<Rightarrow> string \<Rightarrow> products_state" where
  "setError state payload = state\<lparr>error := Some payload, loading := False\<rparr>"

definition setSearchQuery :: "collation \<Rightarrow> products_state \<Rightarrow> string \<Rightarrow> products_state" where
  "setSearchQuery localeCompare state payload =
     applyFilters localeCompare (state\<lparr>searchQuery := payload\<rparr>)"

definition setSelectedCategory ::
  "collation \<Rightarrow> products_state \<Rightarrow> string \<Rightarrow> products_state" where
  "setSelectedCategory localeCompare state payload =
     applyFilters localeCompare (state\<lparr>selectedCategory := payload\<rparr>)"

definition setSortBy :: "collation \<Rightarrow> products_state \<Rightarrow> string \<Rightarrow> products_state" where
  "setSortBy localeCompare state payload =
     applyFilters localeCompare (state\<lparr>sortBy := payload\<rparr>)"

subsection \<open>Products slice: the memoized selector\<close>

text \<open>
  The result function of \<^verbatim>\<open>selectFilteredProducts\<close>. Its search predicate calls
  \<^verbatim>\<open>toLowerCase\<close> on \<^verbatim>\<open>title\<close>, \<^verbatim>\<open>description\<close> and \<^verbatim>\<open>category\<close>, in this order
  and only as far as \<^verbatim>\<open>||\<close> evaluates, and does not look at \<^verbatim>\<open>brand\<close>.
\<close>

definition selector_matches :: "string \<Rightarrow> product \<Rightarrow> js_error + bool" where
  "selector_matches searchQuery1 product =
     (case call_toLowerCase (title product) of
        Inl e \<Rightarrow> Inl e
      | Inr t \<Rightarrow>
          if includes_str t (toLowerCase searchQuery1) then Inr True
          else
            (case call_toLowerCase (description product) of
               Inl e \<Rightarrow> Inl e
             | Inr d \<Rightarrow>
                 if includes_str d (toLowerCase searchQuery1) then Inr True
                 else
                   (case call_toLowerCase (category product) of
                      Inl e \<Rightarrow> Inl e
                    | Inr c \<Rightarrow> Inr (includes_str c (toLowerCase searchQuery1)))))"

text \<open>
  The comparator of the \<^verbatim>\<open>default\<close> case, \<^verbatim>\<open>a.title.localeCompare(b.title)\<close>: it throws
  when \<^verbatim>\<open>a.title\<close> is not a string.
\<close>

definition selector_compare_title :: "collation \<Rightarrow> product \<Rightarrow> product \<Rightarrow> js_error + number" where
  "selector_compare_title localeCompare a b =
     (case title a of JStr s \<Rightarrow> Inr (localeCompare s (title b)) | _ \<Rightarrow> Inl TypeError)"

definition selector_sort ::
  "collation \<Rightarrow> string \<Rightarrow> product list \<Rightarrow> js_error + product list" where
  "selector_sort localeCompare key filtered =
     (if key = ''price-asc'' then Inr (sort_js (\<lambda>a b. price a - price b) filtered)
      else if key = ''price-desc'' then Inr (sort_js (\<lambda>a b. price b - price a) filtered)
      else if key = ''rating'' then Inr (sort_js (\<lambda>a b. rating b - rating a) filtered)
      else sort_js_e (selector_compare_title localeCompare) filtered)"

definition selectFilteredProducts ::
  "collation \<Rightarrow> product list \<Rightarrow> string \<Rightarrow> string \<Rightarrow> string \<Rightarrow> js_error + product list" where
  "selectFilteredProducts localeCompare products1 searchQuery1 selectedCategory1 sortBy1 =
     (case (if searchQuery1 \<noteq> '''' then filter_e (selector_matches searchQuery1) products1
            else Inr products1) of
        Inl e \<Rightarrow> Inl e
      | Inr filtered1 \<Rightarrow>
          (let filtered2 =
             (if selectedCategory1 \<noteq> '''' \<and> selectedCategory1 \<noteq> ''all'' then
                filter (\<lambda>product. category product = JStr selectedCategory1) filtered1
              else filtered1)
           in selector_sort localeCompare sortBy1 filtered2))"

text \<open>The selector on a state of the products slice: its four input selectors.\<close>

definition select_state :: "collation \<Rightarrow> products_state \<Rightarrow> js_error + product list" where
  "select_state localeCompare state =
     selectFilteredProducts localeCompare (products state) (searchQuery state)
       (selectedCategory state) (sortBy state)"

text \<open>
  A collation for the concrete evaluations below: it compares two strings character by
  character, by character code, and takes a value that is not a string as the empty string.
\<close>

fun compare_codes :: "string \<Rightarrow> string \<Rightarrow> number" where
  "compare_codes [] [] = 0"
| "compare_codes [] (c # t) = - 1"
| "compare_codes (a # s) [] = 1"
| "compare_codes (a # s) (c # t) =
     (if (of_char a :: nat) < of_char c then - 1
      else if (of_char c :: nat) < of_char a then 1
      else compare_codes s t)"

definition codeCompare :: collation where
  "codeCompare s v = compare_codes s (safe_string v)"

subsection \<open>Products slice: well-formed records\<close>

text \<open>
  A record is well formed when the four fields the search looks at hold strings.
  \<open>selector_sees\<close> is the search of the three fields the selector looks at, written with
  the safe conversion.
\<close>

definition is_string :: "jsval \<Rightarrow> bool" where
  "is_string v = (case v of JStr s \<Rightarrow> True | _ \<Rightarrow> False)"

definition well_formed :: "product \<Rightarrow> bool" where
  "well_formed p \<longleftrightarrow>
     is_string (title p) \<and> is_string (description p) \<and> is_string (category p) \<and>
     is_string (brand p)"

definition selector_sees :: "string \<Rightarrow> product \<Rightarrow> bool" where
  "selector_sees q p \<longleftrightarrow>
     includes_str (safe_lower (title p)) (toLowerCase q) \<or>
     includes_str (safe_lower (description p)) (toLowerCase q) \<or>
     includes_str (safe_lower (category p)) (toLowerCase q)"

subsection \<open>Sample data\<close>

text \<open>Two payloads of \<^verbatim>\<open>addToCart\<close>, and a third one that reuses the id of the second.\<close>

definition shoe_payload :: cart_payload where
  "shoe_payload =
     \<lparr>item_id = 1, item_title = ''Red Shoe'', item_price = 20, item_image = ''shoe.png''\<rparr>"

definition hat_payload :: cart_payload where
  "hat_payload =
     \<lparr>item_id = 2, item_title = ''Blue Hat'', item_price = 10, item_image = ''hat.png''\<rparr>"

definition other_payload :: cart_payload where
  "other_payload =
     \<lparr>item_id = 2, item_title = ''Green Scarf'', item_price = 99, item_image = ''scarf.png''\<rparr>"

text \<open>
  The catalog of the scenarios of the specification, with a description and a brand for each
  product, and the second product once more without its description.
\<close>

definition redShoe :: product where
  "redShoe =
     \<lparr>product_id = 1, title = JStr ''Red Shoe'', description = JStr ''A running shoe'',
      category = JStr ''shoes'', brand = JStr ''Acme'', price = 50, rating = 4\<rparr>"

definition blueHat :: product where
  "blueHat =
     \<lparr>product_id = 2, title = JStr ''Blue Hat'', description = JStr ''A sun hat'',
      category = JStr ''hats'', brand = JStr ''Zenith'', price = 10, rating = 5\<rparr>"

definition blueHat_no_description :: product where
  "blueHat_no_description =
     \<lparr>product_id = 2, title = JStr ''Blue Hat'', description = JUndefined,
      category = JStr ''hats'', brand = JStr ''Zenith'', price = 10, rating = 5\<rparr>"

text \<open>The state after a load of a catalog into the initial state.\<close>

definition loaded :: "product list \<Rightarrow> products_state" where
  "loaded ps = setProducts codeCompare initialState_products ps"

subsection \<open>Cart slice: the total\<close>

lemmas cart_eval = initialState_cart_def shoe_payload_def hat_payload_def other_payload_def
  addToCart_def updateQuantity_def removeFromCart_def clearCart_def calc_total_def Let_def

lemma foldl_calc_total: "foldl (\<lambda>sum item. sum + item_price item * quantity item) a xs
    = a + (\<Sum>l\<leftarrow>xs. item_price l * quantity l)"
  by (induction xs arbitrary: a) (simp_all add: add.assoc)

lemma calc_total_lines_sum: "calc_total xs = lines_sum xs"
  by (simp add: calc_total_def lines_sum_def foldl_calc_total)

lemma cartReducer_total: "total_cart (cartReducer state a) = lines_sum (items (cartReducer state a))"
proof (cases a)
  case (AddToCart payload)
  then show ?thesis by (simp add: addToCart_def Let_def calc_total_lines_sum)
next
  case (RemoveFromCart pid)
  then show ?thesis by (simp add: removeFromCart_def Let_def calc_total_lines_sum)
next
  case (UpdateQuantity pid q)
  then show ?thesis by (simp add: updateQuantity_def Let_def calc_total_lines_sum)
next
  case ClearCart
  then show ?thesis by (simp add: clearCart_def lines_sum_def)
qed

lemma cart_trace_total:
  "total_cart state = lines_sum (items state) \<Longrightarrow> s \<in> set (cart_trace state as)
     \<Longrightarrow> total_cart s = lines_sum (items s)"
proof (induction as arbitrary: state)
  case Nil
  then show ?case by simp
next
  case (Cons a as)
  from Cons.prems(2) have "s = state \<or> s \<in> set (cart_trace (cartReducer state a) as)"
    by simp
  then show ?case
  proof
    assume "s = state"
    with Cons.prems(1) show ?thesis by simp
  next
    assume "s \<in> set (cart_trace (cartReducer state a) as)"
    with Cons.IH [OF cartReducer_total] show ?thesis .
  qed
qed

text \<open>
  C1. Dispatch any sequence of addToCart, removeFromCart, updateQuantity and clearCart actions
  from the initial empty cart. In every snapshot on the way (the initial one and the one after
  each single action) the stored total equals the sum of unit price times quantity over the
  lines of that snapshot.
\<close>

theorem cart_total_is_sum_of_lines:
  "s \<in> set (cart_trace initialState_cart as) \<Longrightarrow> total_cart s = lines_sum (items s)"
  by (rule cart_trace_total) (simp_all add: initialState_cart_def lines_sum_def)

theorem cart_total_is_sum_of_lines_witness:
  "updateQuantity (addToCart (addToCart initialState_cart shoe_payload) shoe_payload) 1 0
     \<in> set (cart_trace initialState_cart
              [AddToCart shoe_payload, AddToCart shoe_payload, UpdateQuantity 1 0])
   \<and> total_cart
       (updateQuantity (addToCart (addToCart initialState_cart shoe_payload) shoe_payload) 1 0)
     = 40
   \<and> lines_sum
       (items
          (updateQuantity (addToCart (addToCart initialState_cart shoe_payload) shoe_payload)
             1 0))
     = 40"
  using cart_total_is_sum_of_lines
    [of "updateQuantity (addToCart (addToCart initialState_cart shoe_payload) shoe_payload) 1 0"
        "[AddToCart shoe_payload, AddToCart shoe_payload, UpdateQuantity 1 0]"]
  by (simp add: cart_eval lines_sum_def)

subsection \<open>Cart slice: quantities\<close>

lemma find_index_None: "find_index P xs = None \<longleftrightarrow> (\<forall>j<length xs. \<not> P (xs ! j))"
proof (induction xs)
  case Nil
  then show ?case by simp
next
  case (Cons x xs)
  show ?case
  proof (cases "P x")
    case True
    then show ?thesis by auto
  next
    case False
    then show ?thesis using Cons.IH by (auto simp: less_Suc_eq_0_disj)
  qed
qed

lemma find_index_Some:
  "find_index P xs = Some i \<longleftrightarrow> i < length xs \<and> P (xs ! i) \<and> (\<forall>j<i. \<not> P (xs ! j))"
proof (induction xs arbitrary: i)
  case Nil
  then show ?case by simp
next
  case (Cons x xs)
  show ?case
  proof (cases "P x")
    case True
    then show ?thesis by (cases i) auto
  next
    case False
    show ?thesis
    proof (cases i)
      case 0
      with False show ?thesis by auto
    next
      case (Suc k)
      with False Cons.IH [of k] show ?thesis
        by (auto simp: less_Suc_eq_0_disj)
    qed
  qed
qed

text \<open>
  C2. For every cart state, every product id and every quantity below 1, updateQuantity leaves
  the lines of the cart as they were: no line is removed, no quantity is clamped to 1, and
  every line keeps its quantity.
\<close>

theorem updateQuantity_below_one_keeps_lines:
  "q < 1 \<Longrightarrow> items (updateQuantity state pid q) = items state"
  by (simp add: updateQuantity_def Let_def split: option.split)

theorem updateQuantity_below_one_keeps_lines_witness:
  "(0::number) < 1 \<and>
   items (updateQuantity (addToCart (addToCart initialState_cart shoe_payload) shoe_payload) 1 0)
     = [\<lparr>item_id = 1, item_title = ''Red Shoe'', item_price = 20, item_image = ''shoe.png'', quantity = 2\<rparr>]"
  using updateQuantity_below_one_keeps_lines [of 0 "addToCart (addToCart initialState_cart shoe_payload) shoe_payload" 1]
  by (simp add: initialState_cart_def shoe_payload_def addToCart_def Let_def)

subsection \<open>Cart slice: adding a product\<close>

lemma addToCart_items_new:
  assumes "\<forall>j<length (items state). item_id (items state ! j) \<noteq> item_id payload"
  shows "items (addToCart state payload) =
           items state @
             [\<lparr>item_id = item_id payload, item_title = item_title payload,
               item_price = item_price payload, item_image = item_image payload,
               quantity = 1\<rparr>]"
proof -
  from assms have "find_index (\<lambda>item. item_id item = item_id payload) (items state) = None"
    by (simp add: find_index_None)
  then show ?thesis by (simp add: addToCart_def Let_def)
qed

lemma addToCart_items_existing:
  assumes "i < length (items state)" and "item_id (items state ! i) = item_id payload"
    and "\<forall>j<i. item_id (items state ! j) \<noteq> item_id payload"
  shows "items (addToCart state payload) =
           (items state)[i := (items state ! i)\<lparr>quantity := quantity (items state ! i) + 1\<rparr>]"
proof -
  from assms have "find_index (\<lambda>item. item_id item = item_id payload) (items state) = Some i"
    by (simp add: find_index_Some)
  then show ?thesis by (simp add: addToCart_def Let_def)
qed

lemma first_match_exists:
  assumes "i < length xs" and "P (xs ! i)"
  shows "\<exists>k\<le>i. P (xs ! k) \<and> (\<forall>j<k. \<not> P (xs ! j))"
proof -
  define k where "k = (LEAST n. P (xs ! n))"
  have "P (xs ! k)" unfolding k_def using assms(2) by (rule LeastI)
  moreover have "k \<le> i" unfolding k_def using assms(2) by (rule Least_le)
  moreover have "\<forall>j<k. \<not> P (xs ! j)" unfolding k_def using not_less_Least by blast
  ultimately show ?thesis by blast
qed

text \<open>
  C3. addToCart is a total function of the state and the payload: it has no failing branch.
  When no line has the id of the payload, one line with the fields of the payload and
  quantity 1 is appended at the end. When a line has that id, the first such line has its
  quantity incremented by exactly 1, the number of lines is unchanged and every other line
  is untouched. In particular, two addToCart actions with the same id from the empty cart
  give exactly one line, with quantity 2.
\<close>

theorem addToCart_increments_or_appends:
  "((\<forall>j<length (items state). item_id (items state ! j) \<noteq> item_id payload) \<longrightarrow>
      items (addToCart state payload) =
        items state @
          [\<lparr>item_id = item_id payload, item_title = item_title payload,
            item_price = item_price payload, item_image = item_image payload,
            quantity = 1\<rparr>])
   \<and> (i < length (items state) \<and> item_id (items state ! i) = item_id payload \<and>
        (\<forall>j<i. item_id (items state ! j) \<noteq> item_id payload) \<longrightarrow>
      length (items (addToCart state payload)) = length (items state) \<and>
      items (addToCart state payload) ! i =
        (items state ! i)\<lparr>quantity := quantity (items state ! i) + 1\<rparr> \<and>
      (\<forall>j<length (items state). j \<noteq> i \<longrightarrow>
         items (addToCart state payload) ! j = items state ! j))
   \<and> (item_id payload2 = item_id payload \<longrightarrow>
      items (addToCart (addToCart initialState_cart payload) payload2) =
        [\<lparr>item_id = item_id payload, item_title = item_title payload,
          item_price = item_price payload, item_image = item_image payload,
          quantity = 2\<rparr>])"
proof (intro conjI impI)
  assume "\<forall>j<length (items state). item_id (items state ! j) \<noteq> item_id payload"
  then show "items (addToCart state payload) =
        items state @
          [\<lparr>item_id = item_id payload, item_title = item_title payload,
            item_price = item_price payload, item_image = item_image payload,
            quantity = 1\<rparr>]"
    by (rule addToCart_items_new)
next
  assume h: "i < length (items state) \<and> item_id (items state ! i) = item_id payload \<and>
        (\<forall>j<i. item_id (items state ! j) \<noteq> item_id payload)"
  then have eq: "items (addToCart state payload) =
           (items state)[i := (items state ! i)\<lparr>quantity := quantity (items state ! i) + 1\<rparr>]"
    by (simp add: addToCart_items_existing)
  show "length (items (addToCart state payload)) = length (items state)"
    by (simp add: eq)
  show "items (addToCart state payload) ! i =
        (items state ! i)\<lparr>quantity := quantity (items state ! i) + 1\<rparr>"
    using h by (simp add: eq)
  show "\<forall>j<length (items state). j \<noteq> i \<longrightarrow>
         items (addToCart state payload) ! j = items state ! j"
    by (simp add: eq)
next
  assume "item_id payload2 = item_id payload"
  then show "items (addToCart (addToCart initialState_cart payload) payload2) =
        [\<lparr>item_id = item_id payload, item_title = item_title payload,
          item_price = item_price payload, item_image = item_image payload,
          quantity = 2\<rparr>]"
    by (simp add: addToCart_def initialState_cart_def Let_def)
qed

theorem addToCart_increments_or_appends_witness:
  "length (items initialState_cart) = 0
   \<and> items (addToCart initialState_cart shoe_payload) =
       [\<lparr>item_id = 1, item_title = ''Red Shoe'', item_price = 20, item_image = ''shoe.png'',
         quantity = 1\<rparr>]
   \<and> item_id (items (addToCart initialState_cart shoe_payload) ! 0) = item_id shoe_payload
   \<and> items (addToCart (addToCart initialState_cart shoe_payload) shoe_payload) ! 0 =
       \<lparr>item_id = 1, item_title = ''Red Shoe'', item_price = 20, item_image = ''shoe.png'',
        quantity = 2\<rparr>
   \<and> length (items (addToCart (addToCart initialState_cart shoe_payload) shoe_payload)) = 1"
  using addToCart_increments_or_appends [of initialState_cart shoe_payload 0 shoe_payload]
    addToCart_increments_or_appends
      [of "addToCart initialState_cart shoe_payload" shoe_payload 0 shoe_payload]
  by (simp add: cart_eval)

text \<open>
  C10. When the cart has a line with id X, addToCart with a payload whose id is X changes
  nothing but the quantity of one line with id X (the first one), which grows by 1: every
  line keeps its id, title, price and image, and every payload with id X gives the same
  state, whatever its other fields are.
\<close>

theorem addToCart_existing_changes_quantity_only:
  assumes "i < length (items state)" and "item_id (items state ! i) = item_id payload"
  shows "length (items (addToCart state payload)) = length (items state)
    \<and> (\<forall>j<length (items state).
          item_id (items (addToCart state payload) ! j) = item_id (items state ! j) \<and>
          item_title (items (addToCart state payload) ! j) = item_title (items state ! j) \<and>
          item_price (items (addToCart state payload) ! j) = item_price (items state ! j) \<and>
          item_image (items (addToCart state payload) ! j) = item_image (items state ! j))
    \<and> (\<exists>k\<le>i. item_id (items state ! k) = item_id payload \<and>
          quantity (items (addToCart state payload) ! k) = quantity (items state ! k) + 1 \<and>
          (\<forall>j<length (items state). j \<noteq> k \<longrightarrow>
             items (addToCart state payload) ! j = items state ! j))
    \<and> (item_id payload2 = item_id payload \<longrightarrow>
          addToCart state payload2 = addToCart state payload)"
proof -
  from first_match_exists [of i "items state" "\<lambda>item. item_id item = item_id payload"] assms
  obtain k where k: "k \<le> i" "item_id (items state ! k) = item_id payload"
      "\<forall>j<k. item_id (items state ! j) \<noteq> item_id payload"
    by blast
  with assms(1) have kl: "k < length (items state)" by simp
  have fi: "find_index (\<lambda>item. item_id item = item_id payload) (items state) = Some k"
    using k kl by (simp add: find_index_Some)
  have eq: "items (addToCart state payload) =
      (items state)[k := (items state ! k)\<lparr>quantity := quantity (items state ! k) + 1\<rparr>]"
    using fi by (simp add: addToCart_def Let_def)
  have 1: "length (items (addToCart state payload)) = length (items state)"
    by (simp add: eq)
  have 2: "\<forall>j<length (items state).
          item_id (items (addToCart state payload) ! j) = item_id (items state ! j) \<and>
          item_title (items (addToCart state payload) ! j) = item_title (items state ! j) \<and>
          item_price (items (addToCart state payload) ! j) = item_price (items state ! j) \<and>
          item_image (items (addToCart state payload) ! j) = item_image (items state ! j)"
    using kl by (auto simp: eq nth_list_update)
  have 3: "\<exists>k\<le>i. item_id (items state ! k) = item_id payload \<and>
          quantity (items (addToCart state payload) ! k) = quantity (items state ! k) + 1 \<and>
          (\<forall>j<length (items state). j \<noteq> k \<longrightarrow>
             items (addToCart state payload) ! j = items state ! j)"
    using k kl by (intro exI [of _ k]) (simp add: eq)
  have 4: "item_id payload2 = item_id payload \<longrightarrow>
          addToCart state payload2 = addToCart state payload"
    using fi by (simp add: addToCart_def Let_def)
  from 1 2 3 4 show ?thesis by blast
qed

theorem addToCart_existing_changes_quantity_only_witness:
  "1 < length (items (addToCart (addToCart initialState_cart shoe_payload) hat_payload))
   \<and> item_id (items (addToCart (addToCart initialState_cart shoe_payload) hat_payload) ! 1)
       = item_id other_payload
   \<and> items (addToCart (addToCart (addToCart initialState_cart shoe_payload) hat_payload)
        other_payload) =
       [\<lparr>item_id = 1, item_title = ''Red Shoe'', item_price = 20, item_image = ''shoe.png'',
         quantity = 1\<rparr>,
        \<lparr>item_id = 2, item_title = ''Blue Hat'', item_price = 10, item_image = ''hat.png'',
         quantity = 2\<rparr>]
   \<and> addToCart (addToCart (addToCart initialState_cart shoe_payload) hat_payload) hat_payload
       = addToCart (addToCart (addToCart initialState_cart shoe_payload) hat_payload)
           other_payload"
  using addToCart_existing_changes_quantity_only
    [of 1 "addToCart (addToCart initialState_cart shoe_payload) hat_payload" other_payload
       hat_payload]
  by (simp add: cart_eval)

subsection \<open>Cart slice: ids\<close>

text \<open>
  In every snapshot reached from the empty cart no two lines share an id: the line with the
  id of a payload, when there is one, is the only one.
\<close>

lemma map_item_id_update:
  "i < length xs \<Longrightarrow> map item_id (xs[i := (xs ! i)\<lparr>quantity := q\<rparr>]) = map item_id xs"
  by (simp add: map_update list_update_same_conv)

lemma cartReducer_distinct_ids:
  assumes "distinct (map item_id (items state))"
  shows "distinct (map item_id (items (cartReducer state a)))"
proof (cases a)
  case (AddToCart payload)
  show ?thesis
  proof (cases "find_index (\<lambda>item. item_id item = item_id payload) (items state)")
    case None
    then have "\<forall>j<length (items state). item_id (items state ! j) \<noteq> item_id payload"
      by (simp add: find_index_None)
    then have "item_id payload \<notin> item_id ` set (items state)"
      by (auto simp: in_set_conv_nth)
    with assms None AddToCart show ?thesis by (simp add: addToCart_def Let_def)
  next
    case (Some i)
    then have "i < length (items state)" by (simp add: find_index_Some)
    with assms Some AddToCart show ?thesis
      by (simp add: addToCart_def Let_def map_item_id_update)
  qed
next
  case (RemoveFromCart pid)
  with assms show ?thesis by (simp add: removeFromCart_def Let_def distinct_map_filter)
next
  case (UpdateQuantity pid q)
  show ?thesis
  proof (cases "find_index (\<lambda>item. item_id item = pid) (items state)")
    case None
    with assms UpdateQuantity show ?thesis by (simp add: updateQuantity_def Let_def)
  next
    case (Some i)
    then have "i < length (items state)" by (simp add: find_index_Some)
    with assms Some UpdateQuantity show ?thesis
      by (simp add: updateQuantity_def Let_def map_item_id_update)
  qed
next
  case ClearCart
  then show ?thesis by (simp add: clearCart_def)
qed

lemma cart_trace_distinct_ids:
  "distinct (map item_id (items state)) \<Longrightarrow> s \<in> set (cart_trace state as)
     \<Longrightarrow> distinct (map item_id (items s))"
proof (induction as arbitrary: state)
  case Nil
  then show ?case by simp
next
  case (Cons a as)
  from Cons.prems(2) consider "s = state" | "s \<in> set (cart_trace (cartReducer state a) as)"
    by auto
  then show ?case
  proof cases
    case 1
    with Cons.prems(1) show ?thesis by simp
  next
    case 2
    with Cons.IH [OF cartReducer_distinct_ids [OF Cons.prems(1)]] show ?thesis .
  qed
qed

lemma cart_ids_unique:
  "s \<in> set (cart_trace initialState_cart as) \<Longrightarrow> distinct (map item_id (items s))"
  by (rule cart_trace_distinct_ids) (simp_all add: initialState_cart_def)

subsection \<open>Products slice: strings and arrays\<close>

lemmas products_eval = initialState_products_def loaded_def redShoe_def blueHat_def
  blueHat_no_description_def setProducts_def setSearchQuery_def setSelectedCategory_def
  setSortBy_def setLoading_def setError_def applyFilters_def reducer_matches_def
  reducer_sort_def safe_lower_def safe_string_def toLowerCase_def toLowerCase_char_def
  call_toLowerCase_def selector_matches_def selector_sort_def selector_compare_title_def
  selectFilteredProducts_def select_state_def distinct_values_def codeCompare_def Let_def

lemma startsWith_iff: "startsWith s t \<longleftrightarrow> (\<exists>ss. s = t @ ss)"
  by (induction s t rule: startsWith.induct) auto

lemma includes_str_iff: "includes_str s t \<longleftrightarrow> (\<exists>ps ss. s = ps @ t @ ss)"
proof (induction s)
  case Nil
  then show ?case by auto
next
  case (Cons a s)
  show ?case
  proof
    assume "includes_str (a # s) t"
    then have "startsWith (a # s) t \<or> includes_str s t" by simp
    then show "\<exists>ps ss. a # s = ps @ t @ ss"
    proof
      assume "startsWith (a # s) t"
      then obtain ss where "a # s = t @ ss" by (auto simp: startsWith_iff)
      then have "a # s = [] @ t @ ss" by simp
      then show ?thesis by blast
    next
      assume "includes_str s t"
      with Cons.IH obtain ps ss where "s = ps @ t @ ss" by blast
      then have "a # s = (a # ps) @ t @ ss" by simp
      then show ?thesis by blast
    qed
  next
    assume "\<exists>ps ss. a # s = ps @ t @ ss"
    then obtain ps ss where eq: "a # s = ps @ t @ ss" by blast
    show "includes_str (a # s) t"
    proof (cases ps)
      case Nil
      with eq have "startsWith (a # s) t" by (auto simp: startsWith_iff)
      then show ?thesis by simp
    next
      case (Cons b qs)
      with eq have "s = qs @ t @ ss" by simp
      with Cons.IH have "includes_str s t" by blast
      then show ?thesis by simp
    qed
  qed
qed

lemma mset_insert_cmp: "mset (insert_cmp cmp x xs) = add_mset x (mset xs)"
  by (induction xs) auto

lemma mset_sort_js: "mset (sort_js cmp xs) = mset xs"
  by (induction xs) (auto simp: mset_insert_cmp)

lemma set_sort_js: "set (sort_js cmp xs) = set xs"
  by (metis mset_sort_js set_mset_mset)

lemma insert_cmp_e_total:
  "insert_cmp_e (\<lambda>a b. Inr (cmp a b)) x xs = Inr (insert_cmp cmp x xs)"
  by (induction xs) auto

lemma sort_js_e_total: "sort_js_e (\<lambda>a b. Inr (cmp a b)) xs = Inr (sort_js cmp xs)"
  by (induction xs) (auto simp: insert_cmp_e_total)

lemma insert_cmp_e_cong:
  assumes "\<forall>y\<in>set xs. cmp x y = cmp' x y"
  shows "insert_cmp_e cmp x xs = insert_cmp_e cmp' x xs"
  using assms by (induction xs) (auto split: sum.splits)

lemma mset_insert_cmp_e: "insert_cmp_e cmp x xs = Inr ys \<Longrightarrow> mset ys = add_mset x (mset xs)"
  by (induction xs arbitrary: ys) (auto split: sum.splits if_splits)

lemma mset_sort_js_e: "sort_js_e cmp xs = Inr ys \<Longrightarrow> mset ys = mset xs"
proof (induction xs arbitrary: ys)
  case Nil
  then show ?case by simp
next
  case (Cons x xs)
  then show ?case by (auto split: sum.splits dest: mset_insert_cmp_e)
qed

lemma sort_js_e_cong:
  assumes "\<forall>x\<in>set xs. \<forall>y\<in>set xs. cmp x y = cmp' x y"
  shows "sort_js_e cmp xs = sort_js_e cmp' xs"
  using assms
proof (induction xs)
  case Nil
  then show ?case by simp
next
  case (Cons x xs)
  then have IH: "sort_js_e cmp xs = sort_js_e cmp' xs" by simp
  show ?case
  proof (cases "sort_js_e cmp' xs")
    case (Inl e)
    with IH show ?thesis by simp
  next
    case (Inr ys)
    then have "set ys = set xs" by (metis mset_sort_js_e set_mset_mset)
    with Cons.prems have "\<forall>y\<in>set ys. cmp x y = cmp' x y" by simp
    then have "insert_cmp_e cmp x ys = insert_cmp_e cmp' x ys" by (rule insert_cmp_e_cong)
    with IH Inr show ?thesis by simp
  qed
qed

lemma filter_e_total: "\<forall>x\<in>set xs. P x = Inr (Q x) \<Longrightarrow> filter_e P xs = Inr (filter Q xs)"
  by (induction xs) auto

lemma is_string_iff: "is_string v \<longleftrightarrow> (\<exists>s. v = JStr s)"
  by (cases v) (simp_all add: is_string_def)

lemma safe_lower_non_string: "(\<forall>s. v \<noteq> JStr s) \<Longrightarrow> safe_lower v = ''''"
  by (cases v) (simp_all add: safe_lower_def)

lemma mset_reducer_sort: "mset (reducer_sort lc key xs) = mset xs"
  by (simp add: reducer_sort_def mset_sort_js)

lemma mset_selector_sort: "selector_sort lc key xs = Inr ys \<Longrightarrow> mset ys = mset xs"
  by (auto simp: selector_sort_def mset_sort_js mset_sort_js_e split: if_splits)

subsection \<open>Products slice: loading and errors\<close>

text \<open>
  C4, as stated: setLoading with payload true sets the loading status and clears the error.
  It does not hold: after a failed load, setLoading with payload true leaves the error
  message where it is.
\<close>

theorem setLoading_clears_error_counterexample:
  "\<not> (loading (setLoading (setError initialState_products ''network error'') True) = True \<and>
      error (setLoading (setError initialState_products ''network error'') True) = None)"
  by (simp add: setLoading_def setError_def)

text \<open>
  C4, amended: for every state of the products slice, setLoading with payload true sets
  \<^verbatim>\<open>loading\<close> to true, so that the status is loading, and leaves \<^verbatim>\<open>error\<close> as it
  was.
\<close>

theorem setLoading_sets_loading_keeps_error:
  "loading (setLoading state True) = True
   \<and> status_of (setLoading state True) = Loading
   \<and> error (setLoading state True) = error state"
  by (simp add: setLoading_def status_of_def)

text \<open>
  C7. For every state of the products slice and every message, setError stores the message in
  \<^verbatim>\<open>error\<close> and sets \<^verbatim>\<open>loading\<close> to false, so that the status is error, and leaves
  \<^verbatim>\<open>products\<close>, \<^verbatim>\<open>filteredProducts\<close>, \<^verbatim>\<open>searchQuery\<close>, \<^verbatim>\<open>selectedCategory\<close>,
  \<^verbatim>\<open>sortBy\<close> and \<^verbatim>\<open>categories\<close> unchanged; the list the selector computes is
  unchanged as well.
\<close>

theorem setError_sets_error_keeps_catalog:
  "status_of (setError state msg) = Error
   \<and> error (setError state msg) = Some msg
   \<and> loading (setError state msg) = False
   \<and> products (setError state msg) = products state
   \<and> filteredProducts (setError state msg) = filteredProducts state
   \<and> searchQuery (setError state msg) = searchQuery state
   \<and> selectedCategory (setError state msg) = selectedCategory state
   \<and> sortBy (setError state msg) = sortBy state
   \<and> categories (setError state msg) = categories state
   \<and> select_state lc (setError state msg) = select_state lc state"
  by (simp add: setError_def status_of_def select_state_def)

subsection \<open>Products slice: the search\<close>

text \<open>
  The reducer keeps a product exactly when the search term occurs, case-insensitively, in its
  title, description, category or brand, a field that is not a string counting as the empty
  string. The list it stores is a rearrangement of the products it keeps.
\<close>

lemma applyFilters_search:
  assumes "searchQuery state \<noteq> ''''" and "selectedCategory state = ''''"
  shows "mset (filteredProducts (applyFilters lc state)) =
         filter_mset
           (\<lambda>p. includes_str (safe_lower (title p)) (toLowerCase (searchQuery state)) \<or>
                includes_str (safe_lower (description p)) (toLowerCase (searchQuery state)) \<or>
                includes_str (safe_lower (category p)) (toLowerCase (searchQuery state)) \<or>
                includes_str (safe_lower (brand p)) (toLowerCase (searchQuery state)))
           (mset (products state))"
  using assms
  by (simp add: applyFilters_def Let_def mset_reducer_sort reducer_matches_def mset_filter)

text \<open>
  C5. With a non-empty search text, a product is to be kept if and only if the text occurs,
  case-insensitively, in its title, description, category or brand. The reducer does so
  (\<open>applyFilters_search\<close>); the selector, whose result the components render, does not
  look at the brand. For the catalog of the one product Red Shoe, of brand Acme, and the
  search text acme, the reducer keeps the product and the selector returns the empty list.
\<close>

theorem selector_search_ignores_brand:
  "brand redShoe = JStr ''Acme''
   \<and> includes_str (toLowerCase ''Acme'') (toLowerCase ''acme'')
   \<and> filteredProducts (setSearchQuery codeCompare (loaded [redShoe]) ''acme'') = [redShoe]
   \<and> selectFilteredProducts codeCompare [redShoe] ''acme'' '''' ''name'' = Inr []"
  by (simp add: products_eval)

text \<open>
  C6. A record with a missing or non-string field must not abort the filter pass. The reducer
  never throws, and takes such a field as the empty string (\<open>safe_lower_non_string\<close>); the
  selector calls \<^verbatim>\<open>toLowerCase\<close> on the field as it is. For the catalog of Blue Hat
  without a description and Red Shoe, and the search text shoe, the reducer stores Red Shoe,
  and the selector throws a TypeError.
\<close>

theorem selector_raises_on_malformed_record:
  "filteredProducts
       (setSearchQuery codeCompare (loaded [blueHat_no_description, redShoe]) ''shoe'')
     = [redShoe]
   \<and> selectFilteredProducts codeCompare [blueHat_no_description, redShoe] ''shoe'' '''' ''name''
     = Inl TypeError"
  by (simp add: products_eval)

subsection \<open>Products slice: the category filter\<close>

text \<open>
  With an empty search text, the reducer keeps the products of the selected category when one
  is selected, and the selector does the same, except that it keeps every product for the
  sentinel \<^verbatim>\<open>"all"\<close> too.
\<close>

lemma applyFilters_category:
  assumes "searchQuery state = ''''"
  shows "mset (filteredProducts (applyFilters lc state)) =
         (if selectedCategory state = '''' then mset (products state)
          else filter_mset (\<lambda>p. category p = JStr (selectedCategory state))
                 (mset (products state)))"
  using assms
  by (simp add: applyFilters_def Let_def mset_reducer_sort mset_filter)

lemma selector_category:
  assumes "selectFilteredProducts lc ps '''' cat key = Inr out"
  shows "mset out =
         (if cat = '''' \<or> cat = ''all'' then mset ps
          else filter_mset (\<lambda>p. category p = JStr cat) (mset ps))"
  using assms
  by (auto simp: selectFilteredProducts_def Let_def mset_filter dest: mset_selector_sort
      split: if_splits)

text \<open>
  C8. The category filter is to exclude no product when the selected category is empty or the
  sentinel \<^verbatim>\<open>"all"\<close>, which the filter component dispatches. The selector does so
  (\<open>selector_category\<close>); the reducer tests for the empty string only and takes
  \<^verbatim>\<open>"all"\<close> for the name of a category. For the catalog of the one product Red Shoe, of
  category shoes, and the selected category all, the reducer stores the empty list and the
  selector returns the product.
\<close>

theorem reducer_category_all_excludes_everything:
  "filteredProducts (setSelectedCategory codeCompare (loaded [redShoe]) ''all'') = []
   \<and> selectFilteredProducts codeCompare [redShoe] '''' ''all'' ''name'' = Inr [redShoe]"
  by (simp add: products_eval)

subsection \<open>Products slice: reducer and selector\<close>

text \<open>
  The two derivations agree when every record is well formed, no product matches the search
  text by its brand alone, the selected category is not the sentinel, and the sort key is one
  of the four keys.
\<close>

lemma selector_matches_well_formed:
  assumes "well_formed p"
  shows "selector_matches q p = Inr (selector_sees q p)"
proof -
  from assms obtain t d c where "title p = JStr t" "description p = JStr d" "category p = JStr c"
    by (auto simp: well_formed_def is_string_iff)
  then show ?thesis
    by (simp add: selector_matches_def selector_sees_def call_toLowerCase_def safe_lower_def)
qed

lemma selector_sort_well_formed:
  assumes "\<forall>p\<in>set xs. well_formed p"
    and "key = ''price-asc'' \<or> key = ''price-desc'' \<or> key = ''rating'' \<or> key = ''name''"
  shows "selector_sort lc key xs = Inr (reducer_sort lc key xs)"
proof (cases "key = ''name''")
  case True
  have "selector_compare_title lc a b =
          Inr (lc (safe_string (title a)) (JStr (safe_string (title b))))"
    if "a \<in> set xs" and "b \<in> set xs" for a b
  proof -
    from that assms(1) have "is_string (title a)" and "is_string (title b)"
      by (simp_all add: well_formed_def)
    then obtain s t where "title a = JStr s" and "title b = JStr t"
      by (auto simp: is_string_iff)
    then show ?thesis by (simp add: selector_compare_title_def safe_string_def)
  qed
  then have "\<forall>a\<in>set xs. \<forall>b\<in>set xs. selector_compare_title lc a b =
          Inr (lc (safe_string (title a)) (JStr (safe_string (title b))))"
    by blast
  then have "sort_js_e (selector_compare_title lc) xs =
      sort_js_e (\<lambda>a b. Inr (lc (safe_string (title a)) (JStr (safe_string (title b))))) xs"
    by (rule sort_js_e_cong)
  with True show ?thesis
    by (simp add: selector_sort_def reducer_sort_def sort_js_e_total)
next
  case False
  with assms(2) show ?thesis
    by (auto simp: selector_sort_def reducer_sort_def)
qed

lemma reducer_selector_agree:
  assumes wf: "\<forall>p\<in>set (products state). well_formed p"
    and br: "\<forall>p\<in>set (products state).
               includes_str (safe_lower (brand p)) (toLowerCase (searchQuery state)) \<longrightarrow>
               selector_sees (searchQuery state) p"
    and cat: "selectedCategory state \<noteq> ''all''"
    and key: "sortBy state = ''price-asc'' \<or> sortBy state = ''price-desc'' \<or>
              sortBy state = ''rating'' \<or> sortBy state = ''name''"
  shows "select_state lc state = Inr (filteredProducts (applyFilters lc state))"
proof -
  define f1 where "f1 =
    (if searchQuery state \<noteq> '''' then
       filter (reducer_matches (toLowerCase (searchQuery state))) (products state)
     else products state)"
  define f2 where "f2 =
    (if selectedCategory state \<noteq> '''' then
       filter (\<lambda>product. category product = JStr (selectedCategory state)) f1
     else f1)"
  have red: "filteredProducts (applyFilters lc state) = reducer_sort lc (sortBy state) f2"
    by (simp add: applyFilters_def Let_def f1_def f2_def)
  have "\<forall>p\<in>set (products state).
          selector_matches (searchQuery state) p =
          Inr (reducer_matches (toLowerCase (searchQuery state)) p)"
    using wf br
    by (auto simp: selector_matches_well_formed reducer_matches_def selector_sees_def Let_def)
  then have "filter_e (selector_matches (searchQuery state)) (products state) =
      Inr (filter (reducer_matches (toLowerCase (searchQuery state))) (products state))"
    by (rule filter_e_total)
  then have s1: "(if searchQuery state \<noteq> '''' then
        filter_e (selector_matches (searchQuery state)) (products state)
      else Inr (products state)) = Inr f1"
    by (simp add: f1_def)
  have "set f2 \<subseteq> set (products state)" by (auto simp: f1_def f2_def)
  with wf have "\<forall>p\<in>set f2. well_formed p" by blast
  then have s3: "selector_sort lc (sortBy state) f2 = Inr (reducer_sort lc (sortBy state) f2)"
    using key by (rule selector_sort_well_formed)
  have "select_state lc state = selector_sort lc (sortBy state) f2"
    unfolding select_state_def selectFilteredProducts_def s1
    using cat by (simp add: f2_def)
  with s3 red show ?thesis by simp
qed

text \<open>
  C9. The list the reducer stores in \<^verbatim>\<open>filteredProducts\<close> is to equal the list the
  selector computes, for every products, search text, category and sort key. It does not:
  for the catalog of Red Shoe and Blue Hat, the search text zenith (the brand of Blue Hat)
  gives Blue Hat in the reducer and the empty list in the selector, and the category all
  with the sort key price-asc gives the empty list in the reducer and both products in the
  selector.
\<close>

theorem reducer_and_selector_disagree:
  "filteredProducts (setSearchQuery codeCompare (loaded [redShoe, blueHat]) ''zenith'')
     = [blueHat]
   \<and> select_state codeCompare (setSearchQuery codeCompare (loaded [redShoe, blueHat]) ''zenith'')
     = Inr []
   \<and> filteredProducts
       (setSelectedCategory codeCompare
          (setSortBy codeCompare (loaded [redShoe, blueHat]) ''price-asc'') ''all'')
     = []
   \<and> select_state codeCompare
       (setSelectedCategory codeCompare
          (setSortBy codeCompare (loaded [redShoe, blueHat]) ''price-asc'') ''all'')
     = Inr [blueHat, redShoe]"
  by (simp add: products_eval)

end
